theory Spec2Isabelle
  imports Complex_Main
begin

section \<open>Python values\<close>

text \<open>
  The exceptions of Python that the modelled functions can raise. A function that can raise
  returns \<open>error + 'a\<close>, with \<open>Inl\<close> for the exception.
\<close>

datatype error = KeyError | TypeError | ValueError | ZeroDivisionError | AttributeError

text \<open>
  The values that \<open>json.loads\<close> builds: \<open>None\<close>, \<open>bool\<close>, \<open>int\<close>, \<open>float\<close>, \<open>str\<close>, \<open>list\<close> and
  \<open>dict\<close> with string keys. A finite float is given by its exact value; \<open>JNaN\<close> and
  \<open>JInfinity\<close> are the floats that \<open>json.loads\<close> builds from the constants \<open>NaN\<close>, \<open>Infinity\<close>
  (\<open>JInfinity True\<close>) and \<open>-Infinity\<close> (\<open>JInfinity False\<close>), which it accepts beyond JSON.
  A \<open>dict\<close> is an association list; the binding a key has is its first one in the list
  (\<open>map_of\<close>). The same type stands for the answers held in \<open>user_answers\<close>: \<open>JNull\<close> is
  \<open>None\<close>.
\<close>

datatype json =
    JNull
  | JBool bool
  | JInt int
  | JFloat rat
  | JNaN
  | JInfinity bool
  | JStr string
  | JArr "json list"
  | JObj "(string \<times> json) list"

text \<open>The numeric value of a finite number; \<open>True\<close> is 1 and \<open>False\<close> is 0 in Python.\<close>

fun py_num :: "json \<Rightarrow> rat option" where
  "py_num (JBool b) = Some (if b then 1 else 0)"
| "py_num (JInt i) = Some (of_int i)"
| "py_num (JFloat r) = Some r"
| "py_num _ = None"

text \<open>
  Python's \<open>==\<close>: strings by content, numbers and booleans by numeric value, an infinity
  only to the infinity of its sign, \<open>NaN\<close> to nothing (not to itself either), and values of
  different kinds are unequal. Lists are compared element by element and dicts by key set
  and the values under each key; the elements and values are compared as \<open>x is y or x == y\<close>.
  Every \<open>NaN\<close> that \<open>json.loads\<close> builds is the same object, and any other object is equal to
  itself, so \<open>x is y or x == y\<close> holds when both are \<open>NaN\<close> or \<open>x == y\<close>.
\<close>

fun py_eq :: "json \<Rightarrow> json \<Rightarrow> bool" where
  "py_eq JNull JNull = True"
| "py_eq (JStr s) (JStr t) = (s = t)"
| "py_eq (JInfinity a) (JInfinity b) = (a = b)"
| "py_eq (JArr xs) (JArr ys) = list_all2 (\<lambda>x y. (x = JNaN \<and> y = JNaN) \<or> py_eq x y) xs ys"
| "py_eq (JObj a) (JObj b) =
     (list_all (\<lambda>(k, v). map_of a k \<noteq> Some v \<or>
                 (case map_of b k of
                    None \<Rightarrow> False
                  | Some w \<Rightarrow> (v = JNaN \<and> w = JNaN) \<or> py_eq v w)) a
      \<and> list_all (\<lambda>k. map_of a k \<noteq> None) (map fst b))"
| "py_eq x y = (case (py_num x, py_num y) of (Some p, Some q) \<Rightarrow> p = q | _ \<Rightarrow> False)"

text \<open>\<open>x is y or x == y\<close>, the test that \<open>in\<close> applies to the elements of a list.\<close>

definition py_same :: "json \<Rightarrow> json \<Rightarrow> bool" where
  "py_same x y = ((x = JNaN \<and> y = JNaN) \<or> py_eq x y)"

text \<open>Truthiness, as \<open>if x:\<close> tests it.\<close>

fun py_truthy :: "json \<Rightarrow> bool" where
  "py_truthy JNull = False"
| "py_truthy (JBool b) = b"
| "py_truthy (JInt i) = (i \<noteq> 0)"
| "py_truthy (JFloat r) = (r \<noteq> 0)"
| "py_truthy JNaN = True"
| "py_truthy (JInfinity b) = True"
| "py_truthy (JStr s) = (s \<noteq> [])"
| "py_truthy (JArr xs) = (xs \<noteq> [])"
| "py_truthy (JObj kvs) = (kvs \<noteq> [])"

text \<open>\<open>isinstance(x, str)\<close>\<close>

fun is_str :: "json \<Rightarrow> bool" where
  "is_str (JStr s) = True"
| "is_str _ = False"

text \<open>\<open>d[key]\<close> with a string key: only a dict can be indexed by a string.\<close>

fun py_getitem :: "json \<Rightarrow> string \<Rightarrow> error + json" where
  "py_getitem (JObj kvs) key =
     (case map_of kvs key of None \<Rightarrow> Inl KeyError | Some v \<Rightarrow> Inr v)"
| "py_getitem _ key = Inl TypeError"

text \<open>\<open>d.get(key, default)\<close>: only a dict has the method.\<close>

fun py_get :: "json \<Rightarrow> string \<Rightarrow> json \<Rightarrow> error + json" where
  "py_get (JObj kvs) key dflt =
     (case map_of kvs key of None \<Rightarrow> Inr dflt | Some v \<Rightarrow> Inr v)"
| "py_get _ key dflt = Inl AttributeError"

section \<open>Floating point\<close>

text \<open>
  The source divides integers with \<open>/\<close>, which yields a binary64 float rounded to nearest,
  ties to even, and it multiplies and compares such floats. Only non-negative finite floats
  occur. A float is written as a fraction \<open>(n, d)\<close> of integers, \<open>0 \<le> n\<close> and \<open>d\<close> a power
  of two, not necessarily in lowest terms; its value is \<open>n / d\<close>.

  \<open>fl_round a b\<close> is the float nearest to \<open>a / b\<close>: the quotient is scaled by a power of two
  into the interval from \<open>2 ^ 52\<close> to \<open>2 ^ 53\<close>, rounded there to an integer (the 53-bit
  significand), and scaled back. The exponent is not bounded: the model is exact wherever
  the result is in the normal range of binary64, which holds for the quotients of counts
  and lengths (below \<open>2 ^ 63\<close>) that the source computes.
\<close>

type_synonym pyfloat = "int \<times> int"

text \<open>\<open>n.bit_length()\<close> for a non-negative integer.\<close>

fun bit_length :: "int \<Rightarrow> nat" where
  "bit_length n = (if n \<le> 0 then 0 else Suc (bit_length (n div 2)))"

declare bit_length.simps [simp del]

definition round_half_even :: "int \<Rightarrow> int \<Rightarrow> int" where
  "round_half_even n d =
     (let q = n div d; r = n mod d
      in if 2 * r < d then q
         else if d < 2 * r then q + 1
         else if even q then q else q + 1)"

definition fl_round :: "int \<Rightarrow> int \<Rightarrow> pyfloat" where
  "fl_round a b =
     (if a = 0 then (0, 1)
      else let la = bit_length a; lb = bit_length b;
               k = (if a * 2 ^ lb < b * 2 ^ la then 1 else 0);
               m = round_half_even (a * 2 ^ (lb + 52 + k)) (b * 2 ^ la)
           in (m * 2 ^ la, 2 ^ (lb + 52 + k)))"

text \<open>\<open>a / b\<close> on non-negative integers.\<close>

definition py_truediv :: "int \<Rightarrow> int \<Rightarrow> error + pyfloat" where
  "py_truediv a b = (if b = 0 then Inl ZeroDivisionError else Inr (fl_round a b))"

text \<open>
  \<open>x * k\<close> for a float \<open>x\<close> and a non-negative integer \<open>k\<close> that a float holds exactly
  (here 100).
\<close>

fun fl_mul_int :: "pyfloat \<Rightarrow> int \<Rightarrow> pyfloat" where
  "fl_mul_int (n, d) k = fl_round (n * k) d"

text \<open>\<open>x < y\<close> on floats.\<close>

fun fl_less :: "pyfloat \<Rightarrow> pyfloat \<Rightarrow> bool" where
  "fl_less (n1, d1) (n2, d2) = (n1 * d2 < n2 * d1)"

text \<open>\<open>int(x)\<close>: truncation, which is the floor of a non-negative float.\<close>

fun py_int_of_float :: "pyfloat \<Rightarrow> int" where
  "py_int_of_float (n, d) = n div d"

text \<open>The literal \<open>0.3\<close>.\<close>

definition float_0_3 :: pyfloat where
  "float_0_3 = fl_round 3 10"

section \<open>Scoring\<close>

record wrong_entry =
  question_num :: int
  question :: json
  user_answer :: json
  correct_answer :: json
  explanation :: json

record score_report =
  total :: int
  correct :: int
  wrong :: int
  percentage :: int
  wrong_questions :: "wrong_entry list"

text \<open>
  The loop of \<open>calculate_score\<close> over \<open>enumerate(mcqs)\<close>: \<open>i\<close> is the index of the next MCQ,
  the accumulator holds \<open>correct_count\<close> and \<open>wrong_questions\<close>. \<open>user_answers.get(i)\<close> is
  \<open>None\<close> for a missing key.
\<close>

fun score_loop ::
  "(nat \<rightharpoonup> json) \<Rightarrow> nat \<Rightarrow> json list \<Rightarrow> int \<times> wrong_entry list
     \<Rightarrow> error + (int \<times> wrong_entry list)"
where
  "score_loop user_answers i [] acc = Inr acc"
| "score_loop user_answers i (mcq # rest) (correct_count, wrongs) =
     (let ua = (case user_answers i of None \<Rightarrow> JNull | Some v \<Rightarrow> v)
      in case py_getitem mcq ''correct_answer'' of
           Inl e \<Rightarrow> Inl e
         | Inr ca \<Rightarrow>
             if py_eq ua ca then score_loop user_answers (Suc i) rest (correct_count + 1, wrongs)
             else (case py_getitem mcq ''question'' of
                     Inl e \<Rightarrow> Inl e
                   | Inr q \<Rightarrow>
                      (case py_get mcq ''explanation'' (JStr ''N/A'') of
                         Inl e \<Rightarrow> Inl e
                       | Inr ex \<Rightarrow>
                           score_loop user_answers (Suc i) rest
                             (correct_count,
                              wrongs @ [\<lparr>question_num = int i + 1, question = q,
                                         user_answer = (if py_truthy ua then ua
                                                        else JStr ''Not answered''),
                                         correct_answer = ca, explanation = ex\<rparr>]))))"

text \<open>\<open>int((correct_count / total_questions) * 100) if total_questions > 0 else 0\<close>\<close>

definition score_percentage :: "int \<Rightarrow> int \<Rightarrow> error + int" where
  "score_percentage correct_count total_questions =
     (if total_questions > 0
      then (case py_truediv correct_count total_questions of
              Inl e \<Rightarrow> Inl e
            | Inr x \<Rightarrow> Inr (py_int_of_float (fl_mul_int x 100)))
      else Inr 0)"

definition calculate_score :: "json list \<Rightarrow> (nat \<rightharpoonup> json) \<Rightarrow> error + score_report" where
  "calculate_score mcqs user_answers =
     (case score_loop user_answers 0 mcqs (0, []) of
        Inl e \<Rightarrow> Inl e
      | Inr (correct_count, wrongs) \<Rightarrow>
          (let total_questions = int (length mcqs);
               wrong_count = total_questions - correct_count
           in case score_percentage correct_count total_questions of
                Inl e \<Rightarrow> Inl e
              | Inr p \<Rightarrow>
                  Inr \<lparr>total = total_questions, correct = correct_count,
                       wrong = wrong_count, percentage = p, wrong_questions = wrongs\<rparr>))"

text \<open>
  An MCQ as \<open>calculate_score\<close> reads it: a dict that has the keys \<open>question\<close> and
  \<open>correct_answer\<close>.
\<close>

fun is_mcq_dict :: "json \<Rightarrow> bool" where
  "is_mcq_dict (JObj kvs) = (map_of kvs ''question'' \<noteq> None \<and> map_of kvs ''correct_answer'' \<noteq> None)"
| "is_mcq_dict _ = False"

section \<open>Strings\<close>

text \<open>
  A Python string is a list of characters; the characters of the model are the code
  points below 256. Which characters are whitespace, alphanumeric or cased is decided by
  the Unicode tables of the interpreter, which are not part of the repository: the
  functions below take the classification as a parameter, and every theorem about them
  holds for each classification.
\<close>

record charclass =
  isspace :: "char \<Rightarrow> bool"
  isalnum :: "char \<Rightarrow> bool"
  isupper :: "char \<Rightarrow> bool"
  islower :: "char \<Rightarrow> bool"
  istitle :: "char \<Rightarrow> bool"

text \<open>
  The classification that Python gives the code points below 256, used for the concrete
  inputs.
\<close>

definition latin1 :: charclass where
  "latin1 =
     \<lparr>isspace = (\<lambda>c. let n = (of_char c :: int)
                     in (9 \<le> n \<and> n \<le> 13) \<or> (28 \<le> n \<and> n \<le> 32) \<or> n = 133 \<or> n = 160),
      isalnum = (\<lambda>c. let n = (of_char c :: int)
                     in (48 \<le> n \<and> n \<le> 57) \<or> (65 \<le> n \<and> n \<le> 90) \<or> (97 \<le> n \<and> n \<le> 122)
                        \<or> n = 170 \<or> n = 178 \<or> n = 179 \<or> n = 181 \<or> n = 185 \<or> n = 186
                        \<or> (188 \<le> n \<and> n \<le> 190) \<or> (192 \<le> n \<and> n \<le> 214)
                        \<or> (216 \<le> n \<and> n \<le> 246) \<or> 248 \<le> n),
      isupper = (\<lambda>c. let n = (of_char c :: int)
                     in (65 \<le> n \<and> n \<le> 90) \<or> (192 \<le> n \<and> n \<le> 214) \<or> (216 \<le> n \<and> n \<le> 222)),
      islower = (\<lambda>c. let n = (of_char c :: int)
                     in (97 \<le> n \<and> n \<le> 122) \<or> n = 170 \<or> n = 181 \<or> n = 186
                        \<or> (223 \<le> n \<and> n \<le> 246) \<or> 248 \<le> n),
      istitle = (\<lambda>c. False)\<rparr>"

text \<open>\<open>s.strip()\<close>\<close>

definition py_strip :: "charclass \<Rightarrow> string \<Rightarrow> string" where
  "py_strip cc s = rev (dropWhile (isspace cc) (rev (dropWhile (isspace cc) s)))"

text \<open>\<open>s.replace(". ", ".\n")\<close>: the occurrences are replaced from left to right.\<close>

fun replace_period_space :: "string \<Rightarrow> string" where
  "replace_period_space (c # d # cs) =
     (if c = CHR ''.'' \<and> d = CHR '' '' then CHR ''.'' # CHR 0x0A # replace_period_space cs
      else c # replace_period_space (d # cs))"
| "replace_period_space cs = cs"

text \<open>\<open>s.split(sep)\<close> for a separator of one character.\<close>

fun py_split :: "char \<Rightarrow> string \<Rightarrow> string list" where
  "py_split sep [] = [[]]"
| "py_split sep (c # cs) =
     (if c = sep then [] # py_split sep cs
      else (case py_split sep cs of [] \<Rightarrow> [[c]] | w # ws \<Rightarrow> (c # w) # ws))"

text \<open>
  \<open>s.isupper()\<close>: there is a cased character and no cased character is lowercase or
  titlecase.
\<close>

definition str_isupper :: "charclass \<Rightarrow> string \<Rightarrow> bool" where
  "str_isupper cc s =
     (list_ex (isupper cc) s \<and> \<not> list_ex (\<lambda>c. islower cc c \<or> istitle cc c) s)"

text \<open>\<open>sum(not c.isalnum() and not c.isspace() for c in line)\<close>\<close>

definition special_count :: "charclass \<Rightarrow> string \<Rightarrow> int" where
  "special_count cc line = int (length (filter (\<lambda>c. \<not> isalnum cc c \<and> \<not> isspace cc c) line))"

text \<open>\<open>s[:k]\<close>: a negative \<open>k\<close> counts from the end.\<close>

definition py_slice_to :: "string \<Rightarrow> int \<Rightarrow> string" where
  "py_slice_to s k = (if 0 \<le> k then take (nat k) s else take (length s - nat (- k)) s)"

text \<open>\<open>s.startswith(p)\<close>, \<open>s.endswith(p)\<close> and \<open>sub in s\<close>.\<close>

definition startswith :: "string \<Rightarrow> string \<Rightarrow> bool" where
  "startswith s p = (take (length p) s = p)"

definition endswith :: "string \<Rightarrow> string \<Rightarrow> bool" where
  "endswith s p = (length p \<le> length s \<and> drop (length s - length p) s = p)"

fun str_contains :: "string \<Rightarrow> string \<Rightarrow> bool" where
  "str_contains sub [] = (sub = [])"
| "str_contains sub (c # cs) = (startswith (c # cs) sub \<or> str_contains sub cs)"

section \<open>Text cleaning\<close>

text \<open>
  The loop of \<open>clean_and_split_text\<close> over the lines; the accumulator is
  \<open>cleaned_sentences\<close>. The division raises on an empty line.
\<close>

fun clean_loop :: "charclass \<Rightarrow> int \<Rightarrow> int \<Rightarrow> string list \<Rightarrow> string list \<Rightarrow> error + string list"
where
  "clean_loop cc min_length max_length [] cleaned = Inr cleaned"
| "clean_loop cc min_length max_length (raw # rest) cleaned =
     (let line = py_strip cc raw
      in if int (length line) < min_length
         then clean_loop cc min_length max_length rest cleaned
         else if str_isupper cc line \<and> length line < 50
         then clean_loop cc min_length max_length rest cleaned
         else (case py_truediv (special_count cc line) (int (length line)) of
                 Inl e \<Rightarrow> Inl e
               | Inr special_char_ratio \<Rightarrow>
                   if fl_less float_0_3 special_char_ratio
                   then clean_loop cc min_length max_length rest cleaned
                   else clean_loop cc min_length max_length rest
                          (cleaned @ [if max_length < int (length line)
                                      then py_slice_to line max_length @ ''...''
                                      else line])))"

text \<open>
  The candidate lines of a text: the stripped lines that the loop of
  \<open>clean_and_split_text\<close> examines, in order.
\<close>

definition candidate_lines :: "charclass \<Rightarrow> string \<Rightarrow> string list" where
  "candidate_lines cc text =
     map (py_strip cc) (py_split (CHR 0x0A) (replace_period_space text))"

definition clean_and_split_text :: "charclass \<Rightarrow> string \<Rightarrow> int \<Rightarrow> int \<Rightarrow> error + string list" where
  "clean_and_split_text cc text min_length max_length =
     clean_loop cc min_length max_length (py_split (CHR 0x0A) (replace_period_space text)) []"

section \<open>MCQ generation\<close>

text \<open>
  What \<open>generate_mcq_with_ai\<close> signals when it returns \<open>None\<close>: the response is not JSON,
  the parsed value fails the validation, or any other exception was caught.
\<close>

datatype signal = MalformedResponse | InvalidMCQShape | GenerationError

text \<open>
  The completion endpoint, as one call sees it: the content of the reply to the learning
  point, or \<open>None\<close> when the call raises or the reply has no content.
\<close>

type_synonym client = "string \<Rightarrow> string option"

text \<open>
  The text handed to \<open>json.loads\<close>: the stripped reply without a leading \<open>```json\<close> or
  \<open>```\<close> and without a trailing \<open>```\<close>, stripped again.
\<close>

definition strip_fences :: "charclass \<Rightarrow> string \<Rightarrow> string" where
  "strip_fences cc raw =
     (let content = py_strip cc raw;
          content = (if startswith content ''```json'' then drop 7 content else content);
          content = (if startswith content ''```'' then drop 3 content else content);
          content = (if endswith content ''```'' then take (length content - 3) content
                     else content)
      in py_strip cc content)"

text \<open>\<open>len(x)\<close>: strings, lists and dicts have a length; a dict counts its keys.\<close>

fun py_len :: "json \<Rightarrow> error + nat" where
  "py_len (JStr s) = Inr (length s)"
| "py_len (JArr xs) = Inr (length xs)"
| "py_len (JObj kvs) = Inr (length (remdups (map fst kvs)))"
| "py_len _ = Inl TypeError"

text \<open>
  \<open>item in container\<close>: a list is searched for an element that is the item or equal to
  it, a string for a substring
  (and only a string can be looked for in a string), a dict for a key (and a list or a
  dict is not hashable); nothing else is a container.
\<close>

fun py_in :: "json \<Rightarrow> json \<Rightarrow> error + bool" where
  "py_in item (JArr xs) = Inr (list_ex (\<lambda>x. py_same x item) xs)"
| "py_in (JStr sub) (JStr s) = Inr (str_contains sub s)"
| "py_in item (JStr s) = Inl TypeError"
| "py_in (JStr k) (JObj kvs) = Inr (map_of kvs k \<noteq> None)"
| "py_in (JArr xs) (JObj kvs) = Inl TypeError"
| "py_in (JObj a) (JObj kvs) = Inl TypeError"
| "py_in item (JObj kvs) = Inr False"
| "py_in item container = Inl TypeError"

text \<open>\<open>all(key in mcq for key in keys)\<close>, which stops at the first missing key.\<close>

fun all_keys_in :: "string list \<Rightarrow> json \<Rightarrow> error + bool" where
  "all_keys_in [] mcq = Inr True"
| "all_keys_in (key # keys) mcq =
     (case py_in (JStr key) mcq of
        Inl e \<Rightarrow> Inl e
      | Inr b \<Rightarrow> if b then all_keys_in keys mcq else Inr False)"

text \<open>
  The validation of \<open>generate_mcq_with_ai\<close>: \<open>Inr True\<close> where the source reaches
  \<open>return mcq\<close>, \<open>Inr False\<close> where it falls through to the warning, \<open>Inl\<close> where an
  operation raises.
\<close>

definition validate_structure :: "json \<Rightarrow> error + bool" where
  "validate_structure mcq =
     (case all_keys_in [''question'', ''options'', ''correct_answer''] mcq of
        Inl e \<Rightarrow> Inl e
      | Inr present \<Rightarrow>
          if \<not> present then Inr False
          else (case py_getitem mcq ''options'' of
                  Inl e \<Rightarrow> Inl e
                | Inr opts \<Rightarrow>
                   (case py_len opts of
                      Inl e \<Rightarrow> Inl e
                    | Inr n \<Rightarrow>
                        if n \<noteq> 4 then Inr False
                        else (case py_getitem mcq ''correct_answer'' of
                                Inl e \<Rightarrow> Inl e
                              | Inr ca \<Rightarrow> py_in ca opts))))"

text \<open>
  \<open>generate_mcq_with_ai\<close>. \<open>loads\<close> is \<open>json.loads\<close>, with \<open>None\<close> where it raises (a
  \<open>JSONDecodeError\<close>; any other exception of the parser is caught as well and differs only
  in the message shown). Every exception is caught, so the result is the MCQ or a signal.
\<close>

definition generate_mcq_with_ai ::
  "charclass \<Rightarrow> (string \<Rightarrow> json option) \<Rightarrow> client \<Rightarrow> string \<Rightarrow> signal + json"
where
  "generate_mcq_with_ai cc loads client learning_point =
     (case client learning_point of
        None \<Rightarrow> Inl GenerationError
      | Some raw \<Rightarrow>
         (case loads (strip_fences cc raw) of
            None \<Rightarrow> Inl MalformedResponse
          | Some mcq \<Rightarrow>
             (case validate_structure mcq of
                Inl e \<Rightarrow> Inl GenerationError
              | Inr ok \<Rightarrow> if ok then Inr mcq else Inl InvalidMCQShape)))"

section \<open>Quiz batches\<close>

text \<open>
  \<open>random.sample(population, k)\<close> raises \<open>ValueError\<close> when \<open>k\<close> is negative or larger than
  the population, and otherwise returns the elements at \<open>k\<close> pairwise distinct positions
  in the order drawn. The positions drawn are the random choice: they are the parameter
  \<open>idxs\<close>, and \<open>is_sample_choice\<close> says that they are a choice \<open>random.sample\<close> can make.
\<close>

definition is_sample_choice :: "nat \<Rightarrow> int \<Rightarrow> nat list \<Rightarrow> bool" where
  "is_sample_choice n k idxs = (int (length idxs) = k \<and> distinct idxs \<and> list_all (\<lambda>i. i < n) idxs)"

definition random_sample :: "'a list \<Rightarrow> int \<Rightarrow> nat list \<Rightarrow> error + 'a list" where
  "random_sample population k idxs =
     (if k < 0 \<or> int (length population) < k then Inl ValueError
      else Inr (map (\<lambda>i. population ! i) idxs))"

text \<open>\<open>min(num_questions, len(sentences))\<close>\<close>

definition sample_size :: "string list \<Rightarrow> int \<Rightarrow> int" where
  "sample_size sentences num_questions = min num_questions (int (length sentences))"

text \<open>\<open>selected_sentences\<close>, the learning points that the batch generates MCQs from.\<close>

definition selected_sentences :: "string list \<Rightarrow> int \<Rightarrow> nat list \<Rightarrow> error + string list" where
  "selected_sentences sentences num_questions idxs =
     random_sample sentences (sample_size sentences num_questions) idxs"

text \<open>
  The loop of \<open>generate_quiz_batch\<close>: \<open>clients i\<close> is the endpoint as the call for the
  \<open>i\<close>-th selected sentence sees it; the accumulator is \<open>mcqs\<close>.
\<close>

fun batch_loop ::
  "charclass \<Rightarrow> (string \<Rightarrow> json option) \<Rightarrow> (nat \<Rightarrow> client) \<Rightarrow> nat \<Rightarrow> string list \<Rightarrow> json list
     \<Rightarrow> json list"
where
  "batch_loop cc loads clients i [] mcqs = mcqs"
| "batch_loop cc loads clients i (sentence # rest) mcqs =
     (case generate_mcq_with_ai cc loads (clients i) sentence of
        Inl s \<Rightarrow> batch_loop cc loads clients (Suc i) rest mcqs
      | Inr mcq \<Rightarrow>
          batch_loop cc loads clients (Suc i) rest
            (if py_truthy mcq then mcqs @ [mcq] else mcqs))"

definition generate_quiz_batch ::
  "charclass \<Rightarrow> (string \<Rightarrow> json option) \<Rightarrow> (nat \<Rightarrow> client) \<Rightarrow> string list \<Rightarrow> int \<Rightarrow> nat list
     \<Rightarrow> error + json list"
where
  "generate_quiz_batch cc loads clients sentences num_questions idxs =
     (case selected_sentences sentences num_questions idxs of
        Inl e \<Rightarrow> Inl e
      | Inr selected \<Rightarrow> Inr (batch_loop cc loads clients 0 selected []))"

section \<open>Properties of scoring\<close>

lemma py_eq_empty_str: "py_eq (JStr []) ca \<longleftrightarrow> ca = JStr []"
  by (cases ca) auto

lemma is_mcq_dict_getitem:
  assumes "is_mcq_dict m"
  shows "\<exists>ca q ex. py_getitem m ''correct_answer'' = Inr ca
    \<and> py_getitem m ''question'' = Inr q
    \<and> py_get m ''explanation'' (JStr ''N/A'') = Inr ex"
  using assms by (cases m) (auto split: option.splits)

lemma score_loop_total:
  assumes "list_all is_mcq_dict mcqs"
  shows "\<exists>c w. score_loop ua i mcqs (c0, w0) = Inr (c, w)
           \<and> c + int (length w) = c0 + int (length w0) + int (length mcqs)"
  using assms
proof (induction mcqs arbitrary: i c0 w0)
  case Nil
  then show ?case by simp
next
  case (Cons m rest)
  from Cons.prems have m: "is_mcq_dict m" and rest: "list_all is_mcq_dict rest" by simp_all
  from m obtain ca q ex where g: "py_getitem m ''correct_answer'' = Inr ca"
    "py_getitem m ''question'' = Inr q" "py_get m ''explanation'' (JStr ''N/A'') = Inr ex"
    using is_mcq_dict_getitem by blast
  show ?case
  proof (cases "py_eq (case ua i of None \<Rightarrow> JNull | Some v \<Rightarrow> v) ca")
    case True
    with Cons.IH [OF rest, of "Suc i" "c0 + 1" w0] g show ?thesis by (auto simp: Let_def)
  next
    case False
    with Cons.IH [OF rest, of "Suc i" c0] g show ?thesis by (fastforce simp: Let_def)
  qed
qed

lemma score_loop_keeps:
  "score_loop ua i mcqs (c0, w0) = Inr (c, w) \<Longrightarrow> set w0 \<subseteq> set w"
proof (induction mcqs arbitrary: i c0 w0)
  case Nil
  then show ?case by simp
next
  case (Cons m rest)
  then show ?case
    by (fastforce simp: Let_def split: sum.splits if_splits)
qed


lemma score_loop_count_mono:
  "score_loop ua i mcqs (c0, w0) = Inr (c, w) \<Longrightarrow> c0 \<le> c"
proof (induction mcqs arbitrary: i c0 w0)
  case Nil
  then show ?case by simp
next
  case (Cons m rest)
  then show ?case
    by (fastforce simp: Let_def split: sum.splits if_splits)
qed

lemma score_loop_entry:
  assumes "list_all is_mcq_dict mcqs" and "j < length mcqs"
    and "ua (i + j) = Some (JStr [])"
    and "py_getitem (mcqs ! j) ''correct_answer'' = Inr ca" and "ca \<noteq> JStr []"
  shows "\<exists>c w. score_loop ua i mcqs (c0, w0) = Inr (c, w)
           \<and> (\<exists>e\<in>set w. question_num e = int (i + j) + 1
                  \<and> user_answer e = JStr ''Not answered'' \<and> correct_answer e = ca)"
  using assms
proof (induction mcqs arbitrary: i j c0 w0)
  case Nil
  then show ?case by simp
next
  case (Cons m rest)
  from Cons.prems have m: "is_mcq_dict m" and rest: "list_all is_mcq_dict rest" by simp_all
  from m obtain ca' q ex where g: "py_getitem m ''correct_answer'' = Inr ca'"
    "py_getitem m ''question'' = Inr q" "py_get m ''explanation'' (JStr ''N/A'') = Inr ex"
    using is_mcq_dict_getitem by blast
  show ?case
  proof (cases j)
    case 0
    with Cons.prems g have ca': "ca' = ca" and ua: "ua i = Some (JStr [])" by simp_all
    let ?e = "\<lparr>question_num = int i + 1, question = q, user_answer = JStr ''Not answered'',
               correct_answer = ca, explanation = ex\<rparr>"
    from score_loop_total [OF rest, of ua "Suc i" c0 "w0 @ [?e]"]
    obtain c w where r: "score_loop ua (Suc i) rest (c0, w0 @ [?e]) = Inr (c, w)" by blast
    from score_loop_keeps [OF r] have "?e \<in> set w" by auto
    moreover have "score_loop ua i (m # rest) (c0, w0) = Inr (c, w)"
      using g ca' ua r Cons.prems(5) by (simp add: py_eq_empty_str)
    ultimately show ?thesis using 0 by force
  next
    case (Suc j')
    with Cons.prems have j': "j' < length rest" and ua: "ua (Suc i + j') = Some (JStr [])"
      and ca: "py_getitem (rest ! j') ''correct_answer'' = Inr ca" by simp_all
    note ih = Cons.IH [OF rest j' ua ca Cons.prems(5)]
    show ?thesis
    proof (cases "py_eq (case ua i of None \<Rightarrow> JNull | Some v \<Rightarrow> v) ca'")
      case True
      with ih [of "c0 + 1" w0] g Suc show ?thesis by (auto simp: Let_def)
    next
      case False
      with ih [of c0] g Suc show ?thesis by (auto simp: Let_def)
    qed
  qed
qed

lemma score_percentage_returns:
  "\<exists>p. score_percentage c n = Inr p \<and> (n = 0 \<longrightarrow> p = 0)"
  by (cases "n = 0") (simp_all add: score_percentage_def py_truediv_def)

text \<open>
  Claim C1. For every list of MCQs and every answer mapping, \<open>calculate_score\<close> returns
  a report whose total is the number of MCQs, whose correct and wrong counts add up to the
  total, and whose percentage is 0 when the total is 0.
\<close>

theorem calculate_score_totals:
  assumes "list_all is_mcq_dict mcqs"
  shows "\<exists>r. calculate_score mcqs user_answers = Inr r
           \<and> total r = int (length mcqs) \<and> correct r + wrong r = total r
           \<and> (total r = 0 \<longrightarrow> percentage r = 0)"
proof -
  from score_loop_total [OF assms, of user_answers 0 0 "[]"]
  obtain c w where l: "score_loop user_answers 0 mcqs (0, []) = Inr (c, w)" by auto
  from score_percentage_returns [of c "int (length mcqs)"]
  obtain p where p: "score_percentage c (int (length mcqs)) = Inr p"
    and p0: "int (length mcqs) = 0 \<longrightarrow> p = 0" by blast
  show ?thesis using l p p0 by (simp add: calculate_score_def Let_def)
qed


text \<open>The theorem at the empty quiz and at a quiz of two questions.\<close>

theorem calculate_score_totals_witness:
  "(\<exists>r. calculate_score [] Map.empty = Inr r \<and> total r = 0 \<and> correct r + wrong r = total r
        \<and> percentage r = 0)
   \<and> (\<exists>r. calculate_score
          [JObj [(''question'', JStr ''Q1''), (''correct_answer'', JStr ''A'')],
           JObj [(''question'', JStr ''Q2''), (''correct_answer'', JStr ''B'')]]
          [0 \<mapsto> JStr ''A'', 1 \<mapsto> JStr ''C''] = Inr r
        \<and> total r = 2 \<and> correct r + wrong r = total r)"
  using calculate_score_totals [of "[]" Map.empty]
    calculate_score_totals
      [of "[JObj [(''question'', JStr ''Q1''), (''correct_answer'', JStr ''A'')],
            JObj [(''question'', JStr ''Q2''), (''correct_answer'', JStr ''B'')]]"
          "[0 \<mapsto> JStr ''A'', 1 \<mapsto> JStr ''C'']"]
  by auto

text \<open>
  For every total from 1 to 49 and every number of correct answers up to the total, the
  percentage is the integer floor of \<open>correct * 100 / total\<close>: the floats are evaluated for
  each pair.
\<close>

lemma percentage_totals_1_to_25:
  "list_all (\<lambda>t. list_all (\<lambda>c. score_percentage c t = Inr (c * 100 div t)) [0..t]) [1..25]"
  by code_simp

lemma percentage_totals_26_to_38:
  "list_all (\<lambda>t. list_all (\<lambda>c. score_percentage c t = Inr (c * 100 div t)) [0..t]) [26..38]"
  by code_simp

lemma percentage_totals_39_to_49:
  "list_all (\<lambda>t. list_all (\<lambda>c. score_percentage c t = Inr (c * 100 div t)) [0..t]) [39..49]"
  by code_simp

lemma percentage_below_50:
  assumes "0 < t" and "t < 50" and "0 \<le> c" and "c \<le> t"
  shows "score_percentage c t = Inr (c * 100 div t)"
proof -
  have c: "c \<in> {0..t}" using assms by simp
  from assms have "t \<in> {1..25} \<or> t \<in> {26..38} \<or> t \<in> {39..49}" by auto
  then show ?thesis
    using c percentage_totals_1_to_25 percentage_totals_26_to_38 percentage_totals_39_to_49
    unfolding list_all_iff set_upto by blast
qed

text \<open>
  Claim C2, as amended. For every non-empty list of fewer than 50 MCQs, which covers every
  quiz that the application builds (at most 15 questions), the percentage returned by
  \<open>calculate_score\<close> is the integer floor division of \<open>correct * 100\<close> by \<open>total\<close>.
\<close>

theorem percentage_is_floor:
  assumes "list_all is_mcq_dict mcqs" and "mcqs \<noteq> []" and "length mcqs < 50"
  shows "\<exists>r. calculate_score mcqs user_answers = Inr r
           \<and> percentage r = (correct r * 100) div total r"
proof -
  from score_loop_total [OF assms(1), of user_answers 0 0 "[]"]
  obtain c w where l: "score_loop user_answers 0 mcqs (0, []) = Inr (c, w)"
    and n: "c + int (length w) = int (length mcqs)" by auto
  from score_loop_count_mono [OF l] have c0: "0 \<le> c" .
  from n have ct: "c \<le> int (length mcqs)" by simp
  from assms(2,3) have "0 < int (length mcqs)" and "int (length mcqs) < 50" by simp_all
  from percentage_below_50 [OF this c0 ct]
  have "score_percentage c (int (length mcqs)) = Inr (c * 100 div int (length mcqs))" .
  with l show ?thesis by (simp add: calculate_score_def Let_def)
qed

text \<open>The theorem at a quiz of five questions with three correct answers: 60.\<close>

lemma three_of_five:
  "map_sum id percentage
     (calculate_score
        (replicate 5 (JObj [(''question'', JStr ''Q''), (''correct_answer'', JStr ''A'')]))
        (map_of (zip [0..<3] (replicate 3 (JStr ''A''))))) = Inr 60"
  by code_simp

theorem percentage_is_floor_witness:
  "list_all is_mcq_dict
     (replicate 5 (JObj [(''question'', JStr ''Q''), (''correct_answer'', JStr ''A'')]))
   \<and> replicate 5 (JObj [(''question'', JStr ''Q''), (''correct_answer'', JStr ''A'')]) \<noteq> []
   \<and> length (replicate 5 (JObj [(''question'', JStr ''Q''), (''correct_answer'', JStr ''A'')]))
       < 50
   \<and> (\<exists>r. calculate_score
            (replicate 5 (JObj [(''question'', JStr ''Q''), (''correct_answer'', JStr ''A'')]))
            (map_of (zip [0..<3] (replicate 3 (JStr ''A'')))) = Inr r
          \<and> percentage r = (correct r * 100) div total r \<and> percentage r = 60)"
proof -
  let ?q = "replicate 5 (JObj [(''question'', JStr ''Q''), (''correct_answer'', JStr ''A'')])"
  have h: "list_all is_mcq_dict ?q" "?q \<noteq> []" "length ?q < 50"
    by (simp_all add: list_all_iff)
  from percentage_is_floor [OF h, of "map_of (zip [0..<3] (replicate 3 (JStr ''A'')))"]
    three_of_five h
  show ?thesis by auto
qed

text \<open>
  Claim C2 as stated, for every non-empty list of MCQs, fails at a quiz of 50 questions
  with 29 correct answers: \<open>29 / 50\<close> is the float just below 0.58, its product with 100
  rounds to the float just below 58, and \<open>int\<close> truncates it to 57, where the floor is 58.
\<close>

theorem percentage_counterexample:
  "map_sum id total
     (calculate_score
        (replicate 50 (JObj [(''question'', JStr ''Q''), (''correct_answer'', JStr ''A'')]))
        (map_of (zip [0..<29] (replicate 29 (JStr ''A''))))) = Inr 50
   \<and> map_sum id correct
     (calculate_score
        (replicate 50 (JObj [(''question'', JStr ''Q''), (''correct_answer'', JStr ''A'')]))
        (map_of (zip [0..<29] (replicate 29 (JStr ''A''))))) = Inr 29
   \<and> map_sum id percentage
     (calculate_score
        (replicate 50 (JObj [(''question'', JStr ''Q''), (''correct_answer'', JStr ''A'')]))
        (map_of (zip [0..<29] (replicate 29 (JStr ''A''))))) = Inr 57
   \<and> (29 * 100) div 50 = (58 :: int)"
  by code_simp

text \<open>
  Claim C10. When the entry of \<open>user_answers\<close> for a question is the empty string and the
  correct answer of that question is not the empty string, \<open>calculate_score\<close> counts the
  question as wrong (the wrong count is the length of the review list, which holds an entry
  for the question) and the entry records the user's answer as \<open>Not answered\<close>.
\<close>

theorem empty_answer_not_answered:
  assumes "list_all is_mcq_dict mcqs" and "i < length mcqs"
    and "user_answers i = Some (JStr [])"
    and "py_getitem (mcqs ! i) ''correct_answer'' = Inr ca" and "ca \<noteq> JStr []"
  shows "\<exists>r. calculate_score mcqs user_answers = Inr r
           \<and> wrong r = int (length (wrong_questions r))
           \<and> (\<exists>e\<in>set (wrong_questions r). question_num e = int i + 1
                  \<and> user_answer e = JStr ''Not answered'' \<and> correct_answer e = ca)"
proof -
  from score_loop_entry [OF assms(1,2), of user_answers 0 ca 0 "[]"] assms(3,4,5)
  obtain c w where l: "score_loop user_answers 0 mcqs (0, []) = Inr (c, w)"
    and e: "\<exists>e\<in>set w. question_num e = int i + 1
                  \<and> user_answer e = JStr ''Not answered'' \<and> correct_answer e = ca"
    by auto
  from score_loop_total [OF assms(1), of user_answers 0 0 "[]"] l
  have n: "c + int (length w) = int (length mcqs)" by simp
  from score_percentage_returns [of c "int (length mcqs)"]
  obtain p where p: "score_percentage c (int (length mcqs)) = Inr p" by blast
  show ?thesis using l e n p by (auto simp: calculate_score_def Let_def)
qed

text \<open>The theorem at a quiz of two questions whose second answer is the empty string.\<close>

theorem empty_answer_not_answered_witness:
  "\<exists>r. calculate_score
         [JObj [(''question'', JStr ''Q1''), (''correct_answer'', JStr ''A'')],
          JObj [(''question'', JStr ''Q2''), (''correct_answer'', JStr ''B'')]]
         [0 \<mapsto> JStr ''A'', 1 \<mapsto> JStr []] = Inr r
       \<and> wrong r = int (length (wrong_questions r))
       \<and> (\<exists>e\<in>set (wrong_questions r). question_num e = 2
              \<and> user_answer e = JStr ''Not answered'' \<and> correct_answer e = JStr ''B'')"
  using empty_answer_not_answered
    [of "[JObj [(''question'', JStr ''Q1''), (''correct_answer'', JStr ''A'')],
          JObj [(''question'', JStr ''Q2''), (''correct_answer'', JStr ''B'')]]"
        1 "[0 \<mapsto> JStr ''A'', 1 \<mapsto> JStr []]" "JStr ''B''"]
  by simp

section \<open>Properties of floating-point rounding\<close>

text \<open>A positive integer \<open>n\<close> has \<open>bit_length n\<close> binary digits.\<close>

lemma bit_length_upper: "n < 2 ^ bit_length n"
proof (induction n rule: bit_length.induct)
  case (1 n)
  show ?case
  proof (cases "n \<le> 0")
    case True
    then show ?thesis by (simp add: bit_length.simps [of n])
  next
    case False
    with 1 have "n div 2 < 2 ^ bit_length (n div 2)" by simp
    then have "n < 2 * 2 ^ bit_length (n div 2)" by linarith
    with False show ?thesis by (simp add: bit_length.simps [of n])
  qed
qed

lemma bit_length_lower: "0 < n \<Longrightarrow> 2 ^ bit_length n \<le> 2 * n"
proof (induction n rule: bit_length.induct)
  case (1 n)
  show ?case
  proof (cases "n div 2 \<le> 0")
    case True
    with 1(2) have "n = 1" by linarith
    then show ?thesis by (simp add: bit_length.simps [of 1] bit_length.simps [of 0])
  next
    case False
    with 1 have "2 ^ bit_length (n div 2) \<le> 2 * (n div 2)" by simp
    also have "\<dots> \<le> n" by linarith
    finally show ?thesis using 1(2) by (simp add: bit_length.simps [of n])
  qed
qed

text \<open>Rounding to an integer loses at most one half.\<close>

lemma round_half_even_lower:
  assumes "0 < d"
  shows "2 * n \<le> 2 * (d * round_half_even n d) + d"
proof -
  have n: "n = d * (n div d) + n mod d" by simp
  have r: "n mod d < d" using assms by simp
  have "d * (n div d + 1) = d * (n div d) + d" by (simp add: algebra_simps)
  then show ?thesis
    using n r unfolding round_half_even_def Let_def
    by (smt (verit, best))
qed

text \<open>
  The float nearest to \<open>a / b\<close> is at least \<open>a / b * (1 - 2 ^ -53)\<close>: the scaled quotient is
  at least \<open>2 ^ 52\<close>, so the half that rounding loses is at most that fraction of it.
\<close>

lemma fl_round_lower:
  assumes a: "0 < a" and b: "0 < b" and r: "fl_round a b = (n, d)"
  shows "0 < d \<and> a * d * (2 ^ 53 - 1) \<le> n * b * 2 ^ 53"
proof -
  define la where "la = bit_length a"
  define lb where "lb = bit_length b"
  define k :: nat where "k = (if a * 2 ^ lb < b * 2 ^ la then 1 else 0)"
  define N where "N = a * 2 ^ (lb + 52 + k)"
  define D where "D = b * 2 ^ la"
  define m where "m = round_half_even N D"
  from r a have n: "n = m * 2 ^ la" and d: "d = 2 ^ (lb + 52 + k)"
    by (auto simp add: fl_round_def Let_def la_def lb_def k_def N_def D_def m_def)
  have Dpos: "0 < D" using b by (simp add: D_def)
  have scaled: "b * 2 ^ la \<le> a * 2 ^ (lb + k)"
  proof (cases "a * 2 ^ lb < b * 2 ^ la")
    case False
    then show ?thesis by (simp add: k_def)
  next
    case True
    have "b * 2 ^ la \<le> 2 ^ lb * 2 ^ la"
      using bit_length_upper [of b] by (simp add: lb_def)
    also have "\<dots> \<le> 2 ^ lb * (2 * a)"
      using bit_length_lower [OF a] by (simp add: la_def)
    finally show ?thesis using True by (simp add: k_def algebra_simps)
  qed
  have "2 ^ 52 * D \<le> 2 ^ 52 * (a * 2 ^ (lb + k))"
    using scaled unfolding D_def by (rule mult_left_mono) simp
  also have "\<dots> = N" by (simp add: N_def power_add algebra_simps)
  finally have h2: "2 ^ 52 * D \<le> N" .
  from round_half_even_lower [OF Dpos, of N] have h1: "2 * N \<le> 2 * (D * m) + D"
    by (simp add: m_def)
  from h1 h2 have "N * (2 ^ 53 - 1) \<le> (D * m) * 2 ^ 53" by simp
  moreover have "N = a * d" by (simp add: N_def d)
  moreover have "D * m = n * b" by (simp add: D_def n algebra_simps)
  ultimately show ?thesis by (simp add: d)
qed

text \<open>The literal \<open>0.3\<close> is the float \<open>5404319552844595 / 2 ^ 54\<close>, which is below 3/10.\<close>

lemma float_0_3_value: "float_0_3 = (21617278211378380, 72057594037927936)"
  by (simp add: float_0_3_def fl_round_def round_half_even_def bit_length.simps Let_def)

text \<open>
  For a line of fewer than \<open>2 ^ 52\<close> characters the floating-point test
  \<open>special_char_ratio > 0.3\<close> decides the exact comparison: a line that passes it has
  \<open>10 * c \<le> 3 * l\<close>. (For longer lines the float nearest to a ratio just above 3/10 can be
  the literal \<open>0.3\<close> itself.)
\<close>

lemma ratio_check_exact:
  assumes l: "0 < l" "l < 2 ^ 52" and c: "0 \<le> c"
    and keep: "\<not> fl_less float_0_3 (fl_round c l)"
  shows "10 * c \<le> 3 * l"
proof (rule ccontr)
  assume "\<not> 10 * c \<le> 3 * l"
  then have big: "3 * l + 1 \<le> 10 * c" by simp
  with l c have cpos: "0 < c" by simp
  obtain n d where r: "fl_round c l = (n, d)" by (cases "fl_round c l")
  from fl_round_lower [OF cpos l(1) r]
  have dpos: "0 < d" and low: "c * d * (2 ^ 53 - 1) \<le> n * l * 2 ^ 53" by simp_all
  from keep r have le: "n * 72057594037927936 \<le> 21617278211378380 * d"
    by (simp add: float_0_3_value)
  have "d * (c * 9007199254740991 * 72057594037927936)
          = (c * d * (2 ^ 53 - 1)) * 72057594037927936" by simp
  also have "\<dots> \<le> (n * l * 2 ^ 53) * 72057594037927936"
    using low by (rule mult_right_mono) simp
  also have "\<dots> = (n * 72057594037927936) * (l * 2 ^ 53)" by simp
  also have "\<dots> \<le> (21617278211378380 * d) * (l * 2 ^ 53)"
    using le by (rule mult_right_mono) (use l in simp)
  also have "\<dots> = d * (21617278211378380 * l * 2 ^ 53)" by simp
  finally have "c * 9007199254740991 * 72057594037927936 \<le> 21617278211378380 * l * 2 ^ 53"
    using dpos by (simp only: mult_le_cancel_left_pos)
  with big l show False by simp
qed

section \<open>Properties of text cleaning\<close>

text \<open>
  With \<open>min_length\<close> at least 1 the loop returns: a line that reaches the division has at
  least \<open>min_length\<close> characters.
\<close>

lemma clean_loop_returns:
  assumes "1 \<le> min_length"
  shows "\<exists>out. clean_loop cc min_length max_length lines cleaned = Inr out"
proof (induction lines arbitrary: cleaned)
  case Nil
  show ?case by simp
next
  case (Cons raw rest)
  show ?case
  proof (cases "int (length (py_strip cc raw)) < min_length")
    case True
    with Cons show ?thesis by (simp add: Let_def)
  next
    case False
    with assms have "int (length (py_strip cc raw)) \<noteq> 0" by linarith
    with Cons show ?thesis by (simp add: Let_def py_truediv_def)
  qed
qed

text \<open>
  Every emitted string comes from a stripped line that passed the length check and the
  ratio check, and is that line or its truncation followed by the ellipsis.
\<close>

lemma clean_loop_emitted:
  assumes "clean_loop cc min_length max_length lines cleaned = Inr out" and "s \<in> set out"
  shows "s \<in> set cleaned \<or>
    (\<exists>line\<in>set (map (py_strip cc) lines). min_length \<le> int (length line) \<and> line \<noteq> []
       \<and> \<not> fl_less float_0_3 (fl_round (special_count cc line) (int (length line)))
       \<and> s = (if max_length < int (length line) then py_slice_to line max_length @ ''...''
              else line))"
  using assms
proof (induction lines arbitrary: cleaned)
  case Nil
  then show ?case by simp
next
  case (Cons raw rest)
  let ?line = "py_strip cc raw"
  let ?kept = "cleaned @ [if max_length < int (length ?line)
                          then py_slice_to ?line max_length @ ''...'' else ?line]"
  from Cons.prems(1) consider
      (skip) "clean_loop cc min_length max_length rest cleaned = Inr out"
    | (keep) "min_length \<le> int (length ?line)" "?line \<noteq> []"
        "\<not> fl_less float_0_3 (fl_round (special_count cc ?line) (int (length ?line)))"
        "clean_loop cc min_length max_length rest ?kept = Inr out"
    by (auto simp: Let_def py_truediv_def split: if_splits sum.splits)
  then show ?case
  proof cases
    case skip
    from Cons.IH [OF skip Cons.prems(2)] show ?thesis by auto
  next
    case keep
    from Cons.IH [OF keep(4) Cons.prems(2)] keep(1,2,3) show ?thesis by auto
  qed
qed

text \<open>Two concrete texts: a header line above a sentence, and a line of 301 letters.\<close>

lemma scenario_text:
  "clean_and_split_text latin1
     (''AAAA'' @ [CHR 0x0A]
      @ ''This is a properly formed sentence about photosynthesis that exceeds thirty characters.   '')
     30 300
   = Inr [''This is a properly formed sentence about photosynthesis that exceeds thirty characters.'']"
  by code_simp

lemma long_line_text:
  "clean_and_split_text latin1 (replicate 301 (CHR ''a'')) 30 300
     = Inr [replicate 300 (CHR ''a'') @ ''...'']"
  by code_simp

text \<open>
  Claim C3, as amended. With the default bounds every string emitted by
  \<open>clean_and_split_text\<close> has between 30 and 300 characters, except a string produced by
  truncating a longer candidate, which has 303: the 300 characters kept and the ellipsis
  \<open>...\<close> appended to them.
\<close>

theorem emitted_length_bounds:
  "\<exists>out. clean_and_split_text cc text 30 300 = Inr out
     \<and> (\<forall>s\<in>set out. (30 \<le> length s \<and> length s \<le> 300)
                       \<or> (length s = 303 \<and> drop 300 s = ''...''))"
proof -
  from clean_loop_returns [of 30 cc 300]
  obtain out where out: "clean_and_split_text cc text 30 300 = Inr out"
    unfolding clean_and_split_text_def by fastforce
  have "(30 \<le> length s \<and> length s \<le> 300) \<or> (length s = 303 \<and> drop 300 s = ''...'')"
    if "s \<in> set out" for s
  proof -
    from clean_loop_emitted [OF out [unfolded clean_and_split_text_def] that]
    obtain line where len: "30 \<le> int (length line)"
      and s: "s = (if 300 < int (length line) then py_slice_to line 300 @ ''...'' else line)"
      by auto
    show ?thesis
    proof (cases "300 < int (length line)")
      case True
      with s have "s = take 300 line @ ''...''" by (simp add: py_slice_to_def)
      with True show ?thesis by simp
    next
      case False
      with s len show ?thesis by simp
    qed
  qed
  with out show ?thesis by blast
qed

text \<open>The theorem at the line of 301 letters.\<close>

theorem emitted_length_bounds_witness:
  "clean_and_split_text latin1 (replicate 301 (CHR ''a'')) 30 300
     = Inr [replicate 300 (CHR ''a'') @ ''...'']
   \<and> length (replicate 300 (CHR ''a'') @ ''...'') = 303
   \<and> drop 300 (replicate 300 (CHR ''a'') @ ''...'') = ''...''"
  using emitted_length_bounds [of latin1 "replicate 301 (CHR ''a'')"] long_line_text
  by simp

text \<open>
  Claim C3 as stated, that every emitted string has at most 300 characters, fails at the
  line of 301 letters: the emitted string has 303 characters.
\<close>

theorem emitted_length_counterexample:
  "clean_and_split_text latin1 (replicate 301 (CHR ''a'')) 30 300
     = Inr [replicate 300 (CHR ''a'') @ ''...'']
   \<and> \<not> length (replicate 300 (CHR ''a'') @ ''...'') \<le> 300"
  using long_line_text by simp

text \<open>
  Claim C8. For every text and every \<open>min_length\<close> of at least 1, \<open>clean_and_split_text\<close>
  returns a list: the division that computes the special-character ratio, the only
  operation of the function that can raise, never has a zero denominator, since a line
  shorter than \<open>min_length\<close> is discarded before it.
\<close>

theorem clean_and_split_text_total:
  assumes "1 \<le> min_length"
  shows "\<exists>out. clean_and_split_text cc text min_length max_length = Inr out"
  unfolding clean_and_split_text_def using assms by (rule clean_loop_returns)

text \<open>The theorem at the default bounds.\<close>

theorem clean_and_split_text_total_witness:
  "(1::int) \<le> 30 \<and> (\<exists>out. clean_and_split_text latin1
     (''AAAA'' @ [CHR 0x0A]
      @ ''This is a properly formed sentence about photosynthesis that exceeds thirty characters.   '')
     30 300 = Inr out)"
  using clean_and_split_text_total [of 30 latin1 "''AAAA'' @ [CHR 0x0A]
      @ ''This is a properly formed sentence about photosynthesis that exceeds thirty characters.   ''" 300]
  by simp

text \<open>With \<open>min_length = 0\<close> an empty line reaches the division, which raises.\<close>

lemma empty_line_raises:
  "clean_and_split_text latin1 [] 0 300 = Inl ZeroDivisionError"
  by code_simp

text \<open>
  A line of 90 symbols and 211 letters passes the ratio check (90 of 301 characters) and
  is truncated; the emitted string has 93 symbols among 303 characters.
\<close>

lemma special_count_nonneg: "0 \<le> special_count cc line"
  by (simp add: special_count_def)

lemma symbol_line_text:
  "clean_and_split_text latin1 (replicate 90 (CHR ''#'') @ replicate 211 (CHR ''a'')) 30 300
     = Inr [replicate 90 (CHR ''#'') @ replicate 210 (CHR ''a'') @ ''...'']"
  by code_simp

lemma symbol_line_count:
  "special_count latin1 (replicate 90 (CHR ''#'') @ replicate 210 (CHR ''a'') @ ''...'') = 93"
  by code_simp

text \<open>
  Claim C4, as amended. With the default bounds every string emitted by
  \<open>clean_and_split_text\<close> comes from a candidate line of the text, a stripped line, whose
  special-character ratio is at most 0.3 (for a candidate of fewer than \<open>2 ^ 52\<close> characters,
  where the floating-point comparison is exact): the emitted string is that candidate, or
  the first 300 characters of a longer candidate followed by the ellipsis. So every
  emitted string that was not truncated (it has at most 300 characters) has a ratio of at
  most 0.3; for a truncated string the bound is on its candidate line, not on the string
  itself.
\<close>

theorem candidate_special_ratio:
  "\<exists>out. clean_and_split_text cc text 30 300 = Inr out
     \<and> (\<forall>s\<in>set out.
           (\<exists>line\<in>set (candidate_lines cc text).
               s = (if 300 < length line then take 300 line @ ''...'' else line)
             \<and> (length line < 2 ^ 52
                  \<longrightarrow> 10 * special_count cc line \<le> 3 * int (length line)))
         \<and> (length s \<le> 300 \<longrightarrow> 10 * special_count cc s \<le> 3 * int (length s)))"
proof -
  from clean_loop_returns [of 30 cc 300]
  obtain out where out: "clean_and_split_text cc text 30 300 = Inr out"
    unfolding clean_and_split_text_def by fastforce
  have "(\<exists>line\<in>set (candidate_lines cc text).
               s = (if 300 < length line then take 300 line @ ''...'' else line)
             \<and> (length line < 2 ^ 52
                  \<longrightarrow> 10 * special_count cc line \<le> 3 * int (length line)))
         \<and> (length s \<le> 300 \<longrightarrow> 10 * special_count cc s \<le> 3 * int (length s))"
    if "s \<in> set out" for s
  proof -
    from clean_loop_emitted [OF out [unfolded clean_and_split_text_def] that]
    obtain line where cand: "line \<in> set (candidate_lines cc text)"
      and len: "30 \<le> int (length line)"
      and keep: "\<not> fl_less float_0_3 (fl_round (special_count cc line) (int (length line)))"
      and s: "s = (if 300 < int (length line) then py_slice_to line 300 @ ''...'' else line)"
      unfolding candidate_lines_def by auto
    from s have s': "s = (if 300 < length line then take 300 line @ ''...'' else line)"
      by (simp add: py_slice_to_def)
    from len have pos: "0 < int (length line)" by linarith
    have exact: "10 * special_count cc line \<le> 3 * int (length line)"
      if "length line < 2 ^ 52"
    proof -
      from that have "int (length line) < 2 ^ 52"
        by (metis of_nat_less_iff of_nat_numeral of_nat_power)
      from ratio_check_exact [OF pos this special_count_nonneg keep] show ?thesis .
    qed
    have short: "10 * special_count cc s \<le> 3 * int (length s)" if "length s \<le> 300"
    proof -
      have "\<not> 300 < length line"
      proof
        assume "300 < length line"
        with s' have "length s = 303" by simp
        with that show False by simp
      qed
      with s' have eq: "s = line" and "length line < 2 ^ 52" by simp_all
      with exact show ?thesis by simp
    qed
    from cand s' exact short show ?thesis by blast
  qed
  with out show ?thesis by blast
qed

text \<open>The theorem at the sentence below the header line.\<close>

lemma scenario_candidates:
  "candidate_lines latin1
     (''AAAA'' @ [CHR 0x0A]
      @ ''This is a properly formed sentence about photosynthesis that exceeds thirty characters.   '')
   = [''AAAA'',
      ''This is a properly formed sentence about photosynthesis that exceeds thirty characters.'',
      []]"
  by code_simp

theorem candidate_special_ratio_witness:
  "clean_and_split_text latin1
     (''AAAA'' @ [CHR 0x0A]
      @ ''This is a properly formed sentence about photosynthesis that exceeds thirty characters.   '')
     30 300
   = Inr [''This is a properly formed sentence about photosynthesis that exceeds thirty characters.'']
   \<and> ''This is a properly formed sentence about photosynthesis that exceeds thirty characters.''
       \<in> set (candidate_lines latin1
         (''AAAA'' @ [CHR 0x0A]
          @ ''This is a properly formed sentence about photosynthesis that exceeds thirty characters.   ''))
   \<and> length
       ''This is a properly formed sentence about photosynthesis that exceeds thirty characters.''
     \<le> 300
   \<and> 10 * special_count latin1
       ''This is a properly formed sentence about photosynthesis that exceeds thirty characters.''
     \<le> 3 * int (length
       ''This is a properly formed sentence about photosynthesis that exceeds thirty characters.'')"
  using candidate_special_ratio [of latin1 "''AAAA'' @ [CHR 0x0A]
      @ ''This is a properly formed sentence about photosynthesis that exceeds thirty characters.   ''"]
    scenario_text scenario_candidates
  by simp

text \<open>
  Claim C4 as stated, that every emitted string has a ratio of at most 0.3, fails at the
  line of 90 symbols and 211 letters: the emitted string has a ratio of 93/303.
\<close>

theorem special_ratio_counterexample:
  "clean_and_split_text latin1 (replicate 90 (CHR ''#'') @ replicate 211 (CHR ''a'')) 30 300
     = Inr [replicate 90 (CHR ''#'') @ replicate 210 (CHR ''a'') @ ''...'']
   \<and> \<not> 10 * special_count latin1 (replicate 90 (CHR ''#'') @ replicate 210 (CHR ''a'') @ ''...'')
         \<le> 3 * int (length (replicate 90 (CHR ''#'') @ replicate 210 (CHR ''a'') @ ''...''))"
  using symbol_line_text symbol_line_count by simp

section \<open>Properties of MCQ generation\<close>

text \<open>
  A value that passes the validation is a dict with the three keys, whose \<open>options\<close> has
  length 4 and contains \<open>correct_answer\<close> in the sense of \<open>in\<close>.
\<close>

lemma validate_structure_accepts:
  assumes "validate_structure mcq = Inr True"
  shows "\<exists>kvs q opts ca. mcq = JObj kvs \<and> map_of kvs ''question'' = Some q
           \<and> map_of kvs ''options'' = Some opts \<and> map_of kvs ''correct_answer'' = Some ca
           \<and> py_len opts = Inr 4 \<and> py_in ca opts = Inr True"
  using assms
  by (cases mcq)
     (auto simp: validate_structure_def split: sum.splits if_splits option.splits)

lemma generate_returns_validated:
  assumes "generate_mcq_with_ai cc loads client learning_point = Inr mcq"
  shows "validate_structure mcq = Inr True"
  using assms
  by (auto simp: generate_mcq_with_ai_def split: option.splits sum.splits if_splits)

lemma generate_returns_truthy:
  assumes "generate_mcq_with_ai cc loads client learning_point = Inr mcq"
  shows "py_truthy mcq"
  using validate_structure_accepts [OF generate_returns_validated [OF assms]] by auto

text \<open>The fences around a reply are stripped.\<close>

lemma fenced_reply:
  \<open>strip_fences latin1
     (''```json'' @ [CHR 0x0A] @ ''{"question": "Q", "options": "abcd", "correct_answer": "bc"}''
      @ [CHR 0x0A] @ ''```'' @ [CHR 0x0A])
   = ''{"question": "Q", "options": "abcd", "correct_answer": "bc"}''\<close>
  by code_simp

text \<open>
  Claim C5. \<open>generate_mcq_with_ai\<close> is claimed to return an MCQ exactly when the parsed
  reply has the three keys, \<open>options\<close> has exactly 4 entries and \<open>correct_answer\<close> equals one
  of them. For the reply whose \<open>options\<close> is the string \<open>abcd\<close> and whose \<open>correct_answer\<close> is
  \<open>bc\<close>, it returns the parsed dict: the string has length 4 and \<open>bc\<close> is a substring of it.
  (\<open>json.loads\<close> is given by its value at the text of the reply.)
\<close>

theorem string_options_accepted:
  \<open>generate_mcq_with_ai latin1
     [''{"question": "Q", "options": "abcd", "correct_answer": "bc"}'' \<mapsto>
        JObj [(''question'', JStr ''Q''), (''options'', JStr ''abcd''),
              (''correct_answer'', JStr ''bc'')]]
     (\<lambda>learning_point. Some (''```json'' @ [CHR 0x0A]
        @ ''{"question": "Q", "options": "abcd", "correct_answer": "bc"}''
        @ [CHR 0x0A] @ ''```'' @ [CHR 0x0A]))
     ''The mitochondria is the powerhouse of the cell.''
   = Inr (JObj [(''question'', JStr ''Q''), (''options'', JStr ''abcd''),
                (''correct_answer'', JStr ''bc'')])\<close>
  by code_simp

text \<open>
  When the reply parses to a dict whose \<open>options\<close> is a list, the MCQ is returned exactly
  when \<open>question\<close> is present, the list has 4 entries and \<open>correct_answer\<close> is one of
  them: the same object as an entry or equal to it.
\<close>

lemma generate_array_options:
  assumes "client learning_point = Some raw"
    and "loads (strip_fences cc raw) = Some (JObj kvs)"
    and "map_of kvs ''options'' = Some (JArr os)"
  shows "generate_mcq_with_ai cc loads client learning_point = Inr (JObj kvs)
     \<longleftrightarrow> map_of kvs ''question'' \<noteq> None \<and> length os = 4
         \<and> (\<exists>ca. map_of kvs ''correct_answer'' = Some ca \<and> (\<exists>x\<in>set os. py_same x ca))"
  using assms
  by (auto simp: generate_mcq_with_ai_def validate_structure_def list_ex_iff
           split: option.splits sum.splits if_splits)

text \<open>A string is equal only to the same string.\<close>

lemma py_eq_str: "py_eq (JStr s) ca \<longleftrightarrow> ca = JStr s"
  by (cases ca) auto

text \<open>
  Claim C7, as amended. Every MCQ that \<open>generate_mcq_with_ai\<close> accepts and returns is a
  dict with \<open>options\<close> and \<open>correct_answer\<close>, and when its \<open>options\<close> is a list, the list has
  exactly 4 entries and \<open>correct_answer\<close> is one of them: equal to an entry, or \<open>NaN\<close> where
  an entry is \<open>NaN\<close>. When the entries are strings, \<open>correct_answer\<close> is a string and is
  exactly one of them. The entries need not be distinct, and they need not be strings.
\<close>

theorem accepted_mcq_shape:
  assumes "generate_mcq_with_ai cc loads client learning_point = Inr mcq"
  shows "\<exists>kvs opts ca. mcq = JObj kvs \<and> map_of kvs ''options'' = Some opts
           \<and> map_of kvs ''correct_answer'' = Some ca
           \<and> (\<forall>os. opts = JArr os \<longrightarrow>
                  length os = 4 \<and> (\<exists>x\<in>set os. py_eq x ca \<or> (x = JNaN \<and> ca = JNaN)))
           \<and> (\<forall>ss. opts = JArr (map JStr ss) \<longrightarrow>
                  length ss = 4 \<and> (\<exists>s\<in>set ss. ca = JStr s))"
proof -
  from validate_structure_accepts [OF generate_returns_validated [OF assms]]
  obtain kvs q opts ca where m: "mcq = JObj kvs" "map_of kvs ''options'' = Some opts"
    "map_of kvs ''correct_answer'' = Some ca" and len: "py_len opts = Inr 4"
    and mem: "py_in ca opts = Inr True" by blast
  have a: "length os = 4 \<and> (\<exists>x\<in>set os. py_eq x ca \<or> (x = JNaN \<and> ca = JNaN))"
    if "opts = JArr os" for os
    using that len mem by (auto simp: list_ex_iff py_same_def)
  have b: "length ss = 4 \<and> (\<exists>s\<in>set ss. ca = JStr s)" if "opts = JArr (map JStr ss)" for ss
    using a [OF that] by (auto simp: py_eq_str)
  from m a b show ?thesis by blast
qed

text \<open>
  Three accepted replies: one whose four options repeat \<open>A\<close>, one whose options are
  numbers, and one whose answer is the \<open>NaN\<close> that is also its first option, which no
  option is equal to.
\<close>

lemma repeated_options_reply:
  \<open>generate_mcq_with_ai latin1
     [''{"question": "Q", "options": ["A", "A", "B", "C"], "correct_answer": "A"}'' \<mapsto>
        JObj [(''question'', JStr ''Q''),
              (''options'', JArr [JStr ''A'', JStr ''A'', JStr ''B'', JStr ''C'']),
              (''correct_answer'', JStr ''A'')]]
     (\<lambda>learning_point.
        Some ''{"question": "Q", "options": ["A", "A", "B", "C"], "correct_answer": "A"}'')
     ''The mitochondria is the powerhouse of the cell.''
   = Inr (JObj [(''question'', JStr ''Q''),
                (''options'', JArr [JStr ''A'', JStr ''A'', JStr ''B'', JStr ''C'']),
                (''correct_answer'', JStr ''A'')])\<close>
  by code_simp

lemma number_options_reply:
  \<open>generate_mcq_with_ai latin1
     [''{"question": "Q", "options": [1, 2, 3, 4], "correct_answer": 1}'' \<mapsto>
        JObj [(''question'', JStr ''Q''),
              (''options'', JArr [JInt 1, JInt 2, JInt 3, JInt 4]),
              (''correct_answer'', JInt 1)]]
     (\<lambda>learning_point.
        Some ''{"question": "Q", "options": [1, 2, 3, 4], "correct_answer": 1}'')
     ''The mitochondria is the powerhouse of the cell.''
   = Inr (JObj [(''question'', JStr ''Q''),
                (''options'', JArr [JInt 1, JInt 2, JInt 3, JInt 4]),
                (''correct_answer'', JInt 1)])\<close>
  by code_simp

lemma nan_options_reply:
  \<open>generate_mcq_with_ai latin1
     [''{"question": "Q", "options": [NaN, 2, 3, 4], "correct_answer": NaN}'' \<mapsto>
        JObj [(''question'', JStr ''Q''),
              (''options'', JArr [JNaN, JInt 2, JInt 3, JInt 4]),
              (''correct_answer'', JNaN)]]
     (\<lambda>learning_point.
        Some ''{"question": "Q", "options": [NaN, 2, 3, 4], "correct_answer": NaN}'')
     ''The mitochondria is the powerhouse of the cell.''
   = Inr (JObj [(''question'', JStr ''Q''),
                (''options'', JArr [JNaN, JInt 2, JInt 3, JInt 4]),
                (''correct_answer'', JNaN)])
   \<and> \<not> list_ex (\<lambda>x. py_eq x JNaN) [JNaN, JInt 2, JInt 3, JInt 4]\<close>
  by code_simp

text \<open>The theorem at the reply with a repeated option.\<close>

theorem accepted_mcq_shape_witness:
  \<open>\<exists>kvs opts ca.
      JObj [(''question'', JStr ''Q''),
            (''options'', JArr [JStr ''A'', JStr ''A'', JStr ''B'', JStr ''C'']),
            (''correct_answer'', JStr ''A'')] = JObj kvs
      \<and> map_of kvs ''options'' = Some opts \<and> map_of kvs ''correct_answer'' = Some ca
      \<and> opts = JArr [JStr ''A'', JStr ''A'', JStr ''B'', JStr ''C'']
      \<and> opts = JArr (map JStr [''A'', ''A'', ''B'', ''C''])
      \<and> length [JStr ''A'', JStr ''A'', JStr ''B'', JStr ''C''] = 4
      \<and> (\<exists>x\<in>set [JStr ''A'', JStr ''A'', JStr ''B'', JStr ''C''].
            py_eq x ca \<or> (x = JNaN \<and> ca = JNaN))
      \<and> (\<exists>s\<in>set [''A'', ''A'', ''B'', ''C'']. ca = JStr s)\<close>
  using accepted_mcq_shape [OF repeated_options_reply] by auto

text \<open>
  Claim C7 as stated, that the options of an accepted MCQ are 4 distinct strings, fails at
  the reply whose options are \<open>A\<close>, \<open>A\<close>, \<open>B\<close>, \<open>C\<close>, which are not distinct, and at the reply
  whose options are 1, 2, 3, 4, which are not strings.
\<close>

theorem repeated_options_counterexample:
  \<open>generate_mcq_with_ai latin1
     [''{"question": "Q", "options": ["A", "A", "B", "C"], "correct_answer": "A"}'' \<mapsto>
        JObj [(''question'', JStr ''Q''),
              (''options'', JArr [JStr ''A'', JStr ''A'', JStr ''B'', JStr ''C'']),
              (''correct_answer'', JStr ''A'')]]
     (\<lambda>learning_point.
        Some ''{"question": "Q", "options": ["A", "A", "B", "C"], "correct_answer": "A"}'')
     ''The mitochondria is the powerhouse of the cell.''
   = Inr (JObj [(''question'', JStr ''Q''),
                (''options'', JArr [JStr ''A'', JStr ''A'', JStr ''B'', JStr ''C'']),
                (''correct_answer'', JStr ''A'')])
   \<and> \<not> distinct [JStr ''A'', JStr ''A'', JStr ''B'', JStr ''C'']
   \<and> generate_mcq_with_ai latin1
     [''{"question": "Q", "options": [1, 2, 3, 4], "correct_answer": 1}'' \<mapsto>
        JObj [(''question'', JStr ''Q''),
              (''options'', JArr [JInt 1, JInt 2, JInt 3, JInt 4]),
              (''correct_answer'', JInt 1)]]
     (\<lambda>learning_point.
        Some ''{"question": "Q", "options": [1, 2, 3, 4], "correct_answer": 1}'')
     ''The mitochondria is the powerhouse of the cell.''
   = Inr (JObj [(''question'', JStr ''Q''),
                (''options'', JArr [JInt 1, JInt 2, JInt 3, JInt 4]),
                (''correct_answer'', JInt 1)])
   \<and> \<not> list_all is_str [JInt 1, JInt 2, JInt 3, JInt 4]\<close>
  using repeated_options_reply number_options_reply by simp

section \<open>Properties of quiz batches\<close>

text \<open>The batch holds at most one MCQ for each selected sentence.\<close>

lemma batch_loop_length:
  "length (batch_loop cc loads clients i selected mcqs) \<le> length mcqs + length selected"
proof (induction selected arbitrary: i mcqs)
  case Nil
  show ?case by simp
next
  case (Cons sentence rest)
  show ?case
  proof (cases "generate_mcq_with_ai cc loads (clients i) sentence")
    case (Inl s)
    with Cons [of "Suc i" mcqs] show ?thesis by simp
  next
    case (Inr mcq)
    with Cons [of "Suc i" mcqs] Cons [of "Suc i" "mcqs @ [mcq]"] show ?thesis by simp
  qed
qed

text \<open>
  The batch is the list of the MCQs that \<open>generate_mcq_with_ai\<close> returns for the selected
  sentences, one call for each sentence, in order.
\<close>

lemma batch_loop_results:
  "batch_loop cc loads clients i selected mcqs =
     mcqs @ concat (map (\<lambda>(j, sentence).
                      case generate_mcq_with_ai cc loads (clients j) sentence of
                        Inl s \<Rightarrow> [] | Inr mcq \<Rightarrow> [mcq])
                    (enumerate i selected))"
proof (induction selected arbitrary: i mcqs)
  case Nil
  show ?case by simp
next
  case (Cons sentence rest)
  show ?case
  proof (cases "generate_mcq_with_ai cc loads (clients i) sentence")
    case (Inl s)
    with Cons [of "Suc i" mcqs] show ?thesis by simp
  next
    case (Inr mcq)
    from generate_returns_truthy [OF Inr] have "py_truthy mcq" .
    with Inr Cons [of "Suc i" "mcqs @ [mcq]"] show ?thesis by simp
  qed
qed

text \<open>A choice of \<open>random.sample\<close> for the sample size of the batch does not raise.\<close>

lemma sample_choice_size:
  assumes "is_sample_choice (length sentences) (sample_size sentences num_questions) idxs"
  shows "int (length idxs) \<le> num_questions" and "length idxs \<le> length sentences"
    and "selected_sentences sentences num_questions idxs = Inr (map (\<lambda>i. sentences ! i) idxs)"
  using assms
  by (auto simp: is_sample_choice_def sample_size_def selected_sentences_def random_sample_def)

text \<open>
  Claim C6, as amended. One call of \<open>generate_quiz_batch\<close> calls \<open>generate_mcq_with_ai\<close>
  once for each selected learning point, in order, and returns the MCQs that these calls
  return. The selected learning points are those at the positions drawn, which are
  pairwise distinct positions of the list, so they are pairwise distinct learning points
  when the list holds no learning point twice. The batch holds no more MCQs than the
  target count and no more than there are learning points.
\<close>

theorem batch_positions_distinct:
  assumes "is_sample_choice (length sentences) (sample_size sentences num_questions) idxs"
  shows "\<exists>selected mcqs.
           selected_sentences sentences num_questions idxs = Inr selected
         \<and> generate_quiz_batch cc loads clients sentences num_questions idxs = Inr mcqs
         \<and> mcqs = concat (map (\<lambda>(j, sentence).
                                case generate_mcq_with_ai cc loads (clients j) sentence of
                                  Inl s \<Rightarrow> [] | Inr mcq \<Rightarrow> [mcq])
                              (enumerate 0 selected))
         \<and> selected = map (\<lambda>i. sentences ! i) idxs \<and> distinct idxs
         \<and> (\<forall>i\<in>set idxs. i < length sentences)
         \<and> (distinct sentences \<longrightarrow> distinct selected)
         \<and> int (length mcqs) \<le> num_questions \<and> length mcqs \<le> length sentences"
proof -
  let ?sel = "map (\<lambda>i. sentences ! i) idxs"
  let ?mcqs = "batch_loop cc loads clients 0 ?sel []"
  note sz = sample_choice_size [OF assms]
  from assms have d: "distinct idxs" and r: "\<forall>i\<in>set idxs. i < length sentences"
    by (simp_all add: is_sample_choice_def list_all_iff)
  have "distinct ?sel" if "distinct sentences"
    unfolding distinct_map
    using d r that by (auto simp: inj_on_def nth_eq_iff_index_eq)
  moreover have "generate_quiz_batch cc loads clients sentences num_questions idxs = Inr ?mcqs"
    by (simp add: generate_quiz_batch_def sz(3))
  moreover have "length ?mcqs \<le> length idxs"
    using batch_loop_length [of cc loads clients 0 ?sel "[]"] by simp
  moreover have "?mcqs = concat (map (\<lambda>(j, sentence).
                                case generate_mcq_with_ai cc loads (clients j) sentence of
                                  Inl s \<Rightarrow> [] | Inr mcq \<Rightarrow> [mcq])
                              (enumerate 0 ?sel))"
    using batch_loop_results [of cc loads clients 0 ?sel "[]"] by simp
  ultimately show ?thesis using sz d r by auto
qed

text \<open>
  Claim C9. For every list of sentences and every non-negative number of questions, the
  sample size of \<open>generate_quiz_batch\<close> is \<open>min(num_questions, len(sentences))\<close>, which is
  between 0 and the length of the list, so sampling does not raise and the batch is
  returned; an empty list of sentences gives an empty batch.
\<close>

theorem sample_size_well_defined:
  assumes "0 \<le> num_questions"
    and "is_sample_choice (length sentences) (sample_size sentences num_questions) idxs"
  shows "sample_size sentences num_questions = min num_questions (int (length sentences))
       \<and> 0 \<le> sample_size sentences num_questions
       \<and> sample_size sentences num_questions \<le> int (length sentences)
       \<and> (\<exists>mcqs. generate_quiz_batch cc loads clients sentences num_questions idxs = Inr mcqs
              \<and> (sentences = [] \<longrightarrow> mcqs = []))"
proof -
  note sz = sample_choice_size [OF assms(2)]
  let ?mcqs = "batch_loop cc loads clients 0 (map (\<lambda>i. sentences ! i) idxs) []"
  have b: "generate_quiz_batch cc loads clients sentences num_questions idxs = Inr ?mcqs"
    by (simp add: generate_quiz_batch_def sz(3))
  have "?mcqs = []" if "sentences = []"
    using sz(2) that by simp
  with b assms(1) show ?thesis by (auto simp: sample_size_def)
qed

text \<open>A negative number of questions makes \<open>random.sample\<close> raise.\<close>

lemma negative_count_raises:
  "num_questions < 0 \<Longrightarrow>
     generate_quiz_batch cc loads clients sentences num_questions idxs = Inl ValueError"
  by (simp add: generate_quiz_batch_def selected_sentences_def random_sample_def sample_size_def)

text \<open>
  For a non-negative number of questions \<open>random.sample\<close> has a choice: the first positions
  of the list.
\<close>

lemma sample_choice_exists:
  assumes "0 \<le> num_questions"
  shows "is_sample_choice (length sentences) (sample_size sentences num_questions)
           [0..<nat (sample_size sentences num_questions)]"
  using assms by (auto simp: is_sample_choice_def sample_size_def list_all_iff)

text \<open>
  The theorem at two learning points, drawn in reverse order, with an endpoint that
  replies with an MCQ to one of them only.
\<close>

lemma two_sentence_batch:
  \<open>generate_quiz_batch latin1
     [''{"question": "Q", "options": ["A", "B", "C", "D"], "correct_answer": "A"}'' \<mapsto>
        JObj [(''question'', JStr ''Q''),
              (''options'', JArr [JStr ''A'', JStr ''B'', JStr ''C'', JStr ''D'']),
              (''correct_answer'', JStr ''A'')]]
     (\<lambda>i learning_point.
        if learning_point = ''Water boils at one hundred degrees Celsius.''
        then Some ''{"question": "Q", "options": ["A", "B", "C", "D"], "correct_answer": "A"}''
        else Some ''no JSON'')
     [''Water boils at one hundred degrees Celsius.'',
      ''The mitochondria is the powerhouse of the cell.''] 5 [1, 0]
   = Inr [JObj [(''question'', JStr ''Q''),
                (''options'', JArr [JStr ''A'', JStr ''B'', JStr ''C'', JStr ''D'']),
                (''correct_answer'', JStr ''A'')]]\<close>
  by code_simp

theorem batch_positions_distinct_witness:
  \<open>is_sample_choice
      (length [''Water boils at one hundred degrees Celsius.'',
               ''The mitochondria is the powerhouse of the cell.''])
      (sample_size [''Water boils at one hundred degrees Celsius.'',
                    ''The mitochondria is the powerhouse of the cell.''] 5) [1, 0]
   \<and> distinct [''Water boils at one hundred degrees Celsius.'',
                ''The mitochondria is the powerhouse of the cell.'']
   \<and> (\<exists>selected mcqs.
         selected_sentences [''Water boils at one hundred degrees Celsius.'',
                             ''The mitochondria is the powerhouse of the cell.''] 5 [1, 0]
           = Inr selected
       \<and> generate_quiz_batch latin1
            [''{"question": "Q", "options": ["A", "B", "C", "D"], "correct_answer": "A"}'' \<mapsto>
               JObj [(''question'', JStr ''Q''),
                     (''options'', JArr [JStr ''A'', JStr ''B'', JStr ''C'', JStr ''D'']),
                     (''correct_answer'', JStr ''A'')]]
            (\<lambda>i learning_point.
               if learning_point = ''Water boils at one hundred degrees Celsius.''
               then Some ''{"question": "Q", "options": ["A", "B", "C", "D"], "correct_answer": "A"}''
               else Some ''no JSON'')
            [''Water boils at one hundred degrees Celsius.'',
             ''The mitochondria is the powerhouse of the cell.''] 5 [1, 0]
           = Inr mcqs
       \<and> selected = [''The mitochondria is the powerhouse of the cell.'',
                     ''Water boils at one hundred degrees Celsius.'']
       \<and> mcqs = [JObj [(''question'', JStr ''Q''),
                     (''options'', JArr [JStr ''A'', JStr ''B'', JStr ''C'', JStr ''D'']),
                     (''correct_answer'', JStr ''A'')]]
       \<and> distinct selected \<and> int (length mcqs) \<le> 5 \<and> length mcqs \<le> 2)\<close>
  using batch_positions_distinct
    [of \<open>[''Water boils at one hundred degrees Celsius.'',
          ''The mitochondria is the powerhouse of the cell.'']\<close> 5 \<open>[1, 0]\<close> latin1
        \<open>[''{"question": "Q", "options": ["A", "B", "C", "D"], "correct_answer": "A"}'' \<mapsto>
               JObj [(''question'', JStr ''Q''),
                     (''options'', JArr [JStr ''A'', JStr ''B'', JStr ''C'', JStr ''D'']),
                     (''correct_answer'', JStr ''A'')]]\<close>
        \<open>\<lambda>i learning_point.
               if learning_point = ''Water boils at one hundred degrees Celsius.''
               then Some ''{"question": "Q", "options": ["A", "B", "C", "D"], "correct_answer": "A"}''
               else Some ''no JSON''\<close>]
    two_sentence_batch
  by (auto simp: is_sample_choice_def sample_size_def)

text \<open>A text that repeats a sentence yields the learning point twice.\<close>

lemma repeated_sentence_text:
  "clean_and_split_text latin1
     (''Water boils at one hundred degrees Celsius.'' @ [CHR 0x0A]
      @ ''Water boils at one hundred degrees Celsius.'') 30 300
   = Inr [''Water boils at one hundred degrees Celsius.'',
          ''Water boils at one hundred degrees Celsius.'']"
  by code_simp

text \<open>
  Claim C6 as stated, that the learning points of a batch are pairwise distinct, fails
  for the text that repeats a sentence: the two positions hold the same learning point.
\<close>

theorem repeated_sentence_counterexample:
  "clean_and_split_text latin1
     (''Water boils at one hundred degrees Celsius.'' @ [CHR 0x0A]
      @ ''Water boils at one hundred degrees Celsius.'') 30 300
   = Inr [''Water boils at one hundred degrees Celsius.'',
          ''Water boils at one hundred degrees Celsius.'']
   \<and> is_sample_choice 2
       (sample_size [''Water boils at one hundred degrees Celsius.'',
                     ''Water boils at one hundred degrees Celsius.''] 2) [0, 1]
   \<and> selected_sentences [''Water boils at one hundred degrees Celsius.'',
                         ''Water boils at one hundred degrees Celsius.''] 2 [0, 1]
     = Inr [''Water boils at one hundred degrees Celsius.'',
            ''Water boils at one hundred degrees Celsius.'']
   \<and> \<not> distinct [''Water boils at one hundred degrees Celsius.'',
                  ''Water boils at one hundred degrees Celsius.'']"
  using repeated_sentence_text
  by (simp add: is_sample_choice_def sample_size_def selected_sentences_def random_sample_def)

text \<open>The theorem at the empty list and at a list of two sentences.\<close>

theorem sample_size_well_defined_witness:
  "(0::int) \<le> 5
   \<and> is_sample_choice (length ([] :: string list)) (sample_size [] 5) []
   \<and> sample_size [] 5 = 0
   \<and> generate_quiz_batch latin1 (\<lambda>s. None) (\<lambda>i learning_point. None) [] 5 [] = Inr []
   \<and> is_sample_choice
       (length [''Water boils at one hundred degrees Celsius.'',
                ''The mitochondria is the powerhouse of the cell.''])
       (sample_size [''Water boils at one hundred degrees Celsius.'',
                     ''The mitochondria is the powerhouse of the cell.''] 5) [1, 0]
   \<and> sample_size [''Water boils at one hundred degrees Celsius.'',
                   ''The mitochondria is the powerhouse of the cell.''] 5 = 2
   \<and> (\<exists>mcqs. generate_quiz_batch latin1 (\<lambda>s. None) (\<lambda>i learning_point. None)
                [''Water boils at one hundred degrees Celsius.'',
                 ''The mitochondria is the powerhouse of the cell.''] 5 [1, 0] = Inr mcqs)"
  using sample_size_well_defined [of 5 "[]" "[]" latin1 "\<lambda>s. None" "\<lambda>i learning_point. None"]
    sample_size_well_defined
      [of 5 "[''Water boils at one hundred degrees Celsius.'',
               ''The mitochondria is the powerhouse of the cell.'']" "[1, 0]"
          latin1 "\<lambda>s. None" "\<lambda>i learning_point. None"]
  by (auto simp: is_sample_choice_def sample_size_def)

end
